theory Spec2Isabelle
  imports Complex_Main
begin

section \<open>Domain types (types/product.ts, types/cart.ts)\<close>

text \<open>
  A TypeScript \<open>number\<close> is modelled as an exact rational: quantities, prices, totals
  and timestamps. Rounding, NaN and the infinities of IEEE doubles are outside the model;
  a comparison with NaN is modelled where it arises as a missing number (\<open>None\<close>).
\<close>

type_synonym number = rat

datatype ProductCategory = shilajit | saffron | dry_fruits

record Product =
  pid :: string
  name :: string
  category :: ProductCategory
  description :: string
  price :: number
  originalPrice :: "number option"
  image_url :: string
  featured :: bool
  inStock :: bool
  weight :: string
  benefits :: "string list"
  tags :: "string list"

record CartItem =
  product :: Product
  quantity :: number
  addedAt :: number

record Cart =
  items :: "CartItem list"
  totalItems :: number
  totalPrice :: number

datatype CartAction =
    ADD_ITEM Product number
  | REMOVE_ITEM string
  | UPDATE_QUANTITY string number
  | CLEAR_CART
  | LOAD_CART Cart
  | OPTIMISTIC_ADD Product number
  | ROLLBACK_ADD string

section \<open>Array methods used by the reducer\<close>

text \<open>\<open>Array.prototype.findIndex\<close>: the index of the first element that satisfies the
  predicate, \<open>-1\<close> when there is none.\<close>

fun findIndex :: "('a \<Rightarrow> bool) \<Rightarrow> 'a list \<Rightarrow> int" where
  "findIndex p [] = - 1"
| "findIndex p (x # xs) =
     (if p x then 0 else (let r = findIndex p xs in if r = - 1 then - 1 else r + 1))"

text \<open>\<open>Array.prototype.map\<close> and \<open>filter\<close> with the two-argument callback
  \<open>(item, index)\<close>.\<close>

definition map_index :: "('a \<Rightarrow> int \<Rightarrow> 'b) \<Rightarrow> 'a list \<Rightarrow> 'b list" where
  "map_index f xs = map (\<lambda>(i, x). f x (int i)) (enumerate 0 xs)"

definition filter_index :: "('a \<Rightarrow> int \<Rightarrow> bool) \<Rightarrow> 'a list \<Rightarrow> 'a list" where
  "filter_index p xs = map snd (filter (\<lambda>(i, x). p x (int i)) (enumerate 0 xs))"

section \<open>The cart reducer (contexts/CartContext.tsx)\<close>

definition initialCart :: Cart where
  "initialCart = \<lparr>items = [], totalItems = 0, totalPrice = 0\<rparr>"

text \<open>\<open>calculateCartTotals\<close>: both totals are recomputed by a left fold
  (\<open>Array.prototype.reduce\<close>) from \<open>0\<close>.\<close>

definition calculateCartTotals :: "Cart \<Rightarrow> Cart" where
  "calculateCartTotals cart =
     cart\<lparr>totalItems := foldl (\<lambda>sum item. sum + quantity item) 0 (items cart),
          totalPrice := foldl (\<lambda>sum item. sum + price (product item) * quantity item) 0 (items cart)\<rparr>"

text \<open>\<open>cartReducer now state action\<close>. The first argument is the value \<open>Date.now()\<close>
  returns during the call; it is read only when a new line is appended. The
  \<open>default\<close> branch of the \<open>switch\<close> is unreachable for a typed action.\<close>

function cartReducer :: "number \<Rightarrow> Cart \<Rightarrow> CartAction \<Rightarrow> Cart" where
  "cartReducer now state (ADD_ITEM newProduct qty) =
     (let existingItemIndex = findIndex (\<lambda>item. pid (product item) = pid newProduct) (items state);
          newItems =
            (if existingItemIndex > - 1
             then map_index (\<lambda>item index.
                    if index = existingItemIndex
                    then item\<lparr>quantity := quantity item + qty\<rparr> else item) (items state)
             else items state @ [\<lparr>product = newProduct, quantity = qty, addedAt = now\<rparr>])
      in calculateCartTotals (state\<lparr>items := newItems\<rparr>))"
| "cartReducer now state (OPTIMISTIC_ADD newProduct qty) =
     (let existingItemIndex = findIndex (\<lambda>item. pid (product item) = pid newProduct) (items state);
          newItems =
            (if existingItemIndex > - 1
             then map_index (\<lambda>item index.
                    if index = existingItemIndex
                    then item\<lparr>quantity := quantity item + qty\<rparr> else item) (items state)
             else items state @ [\<lparr>product = newProduct, quantity = qty, addedAt = now\<rparr>])
      in calculateCartTotals (state\<lparr>items := newItems\<rparr>))"
| "cartReducer now state (ROLLBACK_ADD productId) =
     (let itemIndex = findIndex (\<lambda>item. pid (product item) = productId) (items state)
      in if itemIndex = - 1 then state
         else (let newItems = filter_index (\<lambda>_ index. index \<noteq> itemIndex) (items state)
               in calculateCartTotals (state\<lparr>items := newItems\<rparr>)))"
| "cartReducer now state (REMOVE_ITEM productId) =
     (let newItems = filter (\<lambda>item. pid (product item) \<noteq> productId) (items state)
      in calculateCartTotals (state\<lparr>items := newItems\<rparr>))"
| "cartReducer now state (UPDATE_QUANTITY productId qty) =
     (if qty \<le> 0 then cartReducer now state (REMOVE_ITEM productId)
      else (let newItems = map (\<lambda>item.
                    if pid (product item) = productId then item\<lparr>quantity := qty\<rparr> else item)
                  (items state)
            in calculateCartTotals (state\<lparr>items := newItems\<rparr>)))"
| "cartReducer now state CLEAR_CART = initialCart"
| "cartReducer now state (LOAD_CART payload) = payload"
  by pat_completeness auto
termination
  by (relation "measure (\<lambda>(now, state, action).
        (case action of UPDATE_QUANTITY _ _ \<Rightarrow> 1 | _ \<Rightarrow> 0))") auto

text \<open>A dispatched action together with the clock reading at the time the reducer runs
  it; \<open>run\<close> applies a sequence of them in order, as React does for \<open>dispatch\<close>.\<close>

type_synonym event = "number \<times> CartAction"

definition run :: "Cart \<Rightarrow> event list \<Rightarrow> Cart" where
  "run start evs = foldl (\<lambda>state (now, action). cartReducer now state action) start evs"

text \<open>The totals invariant of the data model.\<close>

definition totals_ok :: "Cart \<Rightarrow> bool" where
  "totals_ok cart \<longleftrightarrow>
     totalItems cart = sum_list (map quantity (items cart)) \<and>
     totalPrice cart = sum_list (map (\<lambda>item. quantity item * price (product item)) (items cart))"

fun is_LOAD_CART :: "CartAction \<Rightarrow> bool" where
  "is_LOAD_CART (LOAD_CART _) = True"
| "is_LOAD_CART _ = False"


section \<open>JavaScript values handled by the storage utility (utils/storage.ts)\<close>

text \<open>
  The storage utility is generic (\<open>data: any\<close>), so its data are modelled as untyped
  values: what \<open>JSON.parse\<close> can return, and \<open>undefined\<close>. An object is the list of its
  own properties in insertion order, with distinct keys.
\<close>

datatype jsval =
    JUndefined
  | JNull
  | JBool bool
  | JNum number
  | JStr string
  | JArr "jsval list"
  | JObj "(string \<times> jsval) list"

datatype error = TypeError

text \<open>Truthiness (\<open>ToBoolean\<close>).\<close>

fun truthy :: "jsval \<Rightarrow> bool" where
  "truthy JUndefined = False"
| "truthy JNull = False"
| "truthy (JBool b) = b"
| "truthy (JNum n) = (n \<noteq> 0)"
| "truthy (JStr s) = (s \<noteq> [])"
| "truthy (JArr xs) = True"
| "truthy (JObj kvs) = True"

text \<open>
  The property read \<open>v.k\<close>, for a name \<open>k\<close> that no built-in prototype defines and that
  is neither an index nor \<open>length\<close>; the utility reads only \<open>cart\<close>, \<open>items\<close>,
  \<open>version\<close> and \<open>data\<close>. Reading a property of \<open>undefined\<close> or \<open>null\<close> throws a
  TypeError; a primitive or an array has no such property.
\<close>

fun get_prop :: "jsval \<Rightarrow> string \<Rightarrow> error + jsval" where
  "get_prop JUndefined k = Inl TypeError"
| "get_prop JNull k = Inl TypeError"
| "get_prop (JObj kvs) k = Inr (case map_of kvs k of None \<Rightarrow> JUndefined | Some v \<Rightarrow> v)"
| "get_prop v k = Inr JUndefined"

text \<open>Writing a property into an object literal after a spread: an existing key keeps its
  position and takes the new value, a new key is appended.\<close>

fun set_key :: "(string \<times> jsval) list \<Rightarrow> string \<Rightarrow> jsval \<Rightarrow> (string \<times> jsval) list" where
  "set_key [] k v = [(k, v)]"
| "set_key ((k', v') # kvs) k v = (if k' = k then (k, v) # kvs else (k', v') # set_key kvs k v)"

text \<open>The own properties an object spread \<open>{...v}\<close> copies. The utility spreads a value only
  after finding a truthy \<open>cart\<close> property on it, which only an object has here.\<close>

fun own_props :: "jsval \<Rightarrow> (string \<times> jsval) list" where
  "own_props (JObj kvs) = kvs"
| "own_props v = []"

text \<open>
  The platform the utility runs on, as a parameter: \<open>JSON.stringify\<close> (\<open>None\<close> when it
  throws), \<open>JSON.parse\<close> (\<open>None\<close> when it throws a SyntaxError), and the two coercions
  that a comparison or a property key applies to a string or an array: \<open>StringToNumber\<close>
  (\<open>None\<close> for NaN) and \<open>Array.prototype.toString\<close>.
\<close>

record platform =
  JSON_stringify :: "jsval \<Rightarrow> string option"
  JSON_parse :: "string \<Rightarrow> jsval option"
  StringToNumber :: "string \<Rightarrow> number option"
  ArrayToString :: "jsval list \<Rightarrow> string"

text \<open>\<open>ToNumber\<close>; \<open>None\<close> is NaN. A plain object converts to the string
  \<open>[object Object]\<close>, which is not a number.\<close>

fun ToNumber :: "platform \<Rightarrow> jsval \<Rightarrow> number option" where
  "ToNumber P JUndefined = None"
| "ToNumber P JNull = Some 0"
| "ToNumber P (JBool b) = Some (if b then 1 else 0)"
| "ToNumber P (JNum n) = Some n"
| "ToNumber P (JStr s) = StringToNumber P s"
| "ToNumber P (JArr xs) = StringToNumber P (ArrayToString P xs)"
| "ToNumber P (JObj kvs) = None"

text \<open>\<open>v < n\<close> for a number \<open>n\<close>: false when \<open>v\<close> converts to NaN.\<close>

definition js_less :: "platform \<Rightarrow> jsval \<Rightarrow> number \<Rightarrow> bool" where
  "js_less P v n = (case ToNumber P v of None \<Rightarrow> False | Some m \<Rightarrow> m < n)"

text \<open>Whether the property key of \<open>v\<close> (\<open>ToPropertyKey\<close>) is the string \<open>0\<close>, the only
  key of the migration table. The loop reads the table only under a \<open>v\<close> that converts
  to a number, which no name of a member inherited from \<open>Object.prototype\<close> does.\<close>

fun is_key_0 :: "platform \<Rightarrow> jsval \<Rightarrow> bool" where
  "is_key_0 P (JNum n) = (n = 0)"
| "is_key_0 P (JStr s) = (s = ''0'')"
| "is_key_0 P (JArr xs) = (ArrayToString P xs = ''0'')"
| "is_key_0 P v = False"

definition STORAGE_VERSION :: number where
  "STORAGE_VERSION = 1"

definition VERSION_KEY :: string where
  "VERSION_KEY = ''monnn_storage_version''"

text \<open>The transform registered for version 0:
  \<^verbatim>\<open>if (data.cart && !data.cart.items) return {...data, cart: {items: data.cart, totalItems: 0, totalPrice: 0}}; return data;\<close>\<close>

definition migration_0 :: "jsval \<Rightarrow> error + jsval" where
  "migration_0 data =
     (case get_prop data ''cart'' of
        Inl e \<Rightarrow> Inl e
      | Inr cart \<Rightarrow>
          if truthy cart then
            (case get_prop cart ''items'' of
               Inl e \<Rightarrow> Inl e
             | Inr its \<Rightarrow>
                 if \<not> truthy its
                 then Inr (JObj (set_key (own_props data) ''cart''
                        (JObj [(''items'', cart), (''totalItems'', JNum 0), (''totalPrice'', JNum 0)])))
                 else Inr data)
          else Inr data)"

text \<open>The table \<open>migrations\<close>, read as \<open>migrations[v]\<close>: its one entry is under the key
  \<open>0\<close>.\<close>

definition migrations :: "platform \<Rightarrow> jsval \<Rightarrow> (jsval \<Rightarrow> error + jsval) option" where
  "migrations P v = (if is_key_0 P v then Some migration_0 else None)"

text \<open>
  The loop of \<open>migrateData\<close>, \<open>for (let v = fromVersion; v < current; v++)\<close>, with the
  table and the current version it reads from the module as arguments. The loop variable
  starts as the stored version, whatever its type, and is a number after the first
  \<open>v++\<close>. A transform that throws ends the loop with its error. On exact numbers the
  loop always ends; that \<open>v++\<close> leaves a double below \<open>-2^53\<close> unchanged is outside
  the model.
\<close>

function migrate_loop ::
  "platform \<Rightarrow> (jsval \<Rightarrow> (jsval \<Rightarrow> error + jsval) option) \<Rightarrow> number \<Rightarrow> jsval \<Rightarrow> jsval \<Rightarrow> error + jsval"
where
  "migrate_loop P table current migratedData v =
     (case ToNumber P v of
        None \<Rightarrow> Inr migratedData
      | Some n \<Rightarrow>
          if n < current then
            (case (case table v of
                     Some transform \<Rightarrow> transform migratedData
                   | None \<Rightarrow> Inr migratedData) of
               Inl e \<Rightarrow> Inl e
             | Inr d \<Rightarrow> migrate_loop P table current d (JNum (n + 1)))
          else Inr migratedData)"
  by pat_completeness auto
termination
proof (relation "measure (\<lambda>(P, table, current, d, v).
        (case ToNumber P v of None \<Rightarrow> 0 | Some n \<Rightarrow> nat \<lceil>current - n\<rceil>))")
  fix P :: platform and current n :: number and v :: jsval
  assume "ToNumber P v = Some n" and "n < current"
  moreover have "\<lceil>current - (n + 1)\<rceil> < \<lceil>current - n\<rceil>"
    by linarith
  ultimately show "((P, table, current, d, JNum (n + 1)), (P, table, current, migratedData, v))
      \<in> measure (\<lambda>(P, table, current, d, v).
        (case ToNumber P v of None \<Rightarrow> 0 | Some n \<Rightarrow> nat \<lceil>current - n\<rceil>))"
    for table :: "jsval \<Rightarrow> (jsval \<Rightarrow> error + jsval) option" and d migratedData :: jsval
    by simp
qed simp

definition migrateData :: "platform \<Rightarrow> jsval \<Rightarrow> jsval \<Rightarrow> error + jsval" where
  "migrateData P data fromVersion = migrate_loop P (migrations P) STORAGE_VERSION data fromVersion"

text \<open>\<open>localStorage\<close>: a map from keys to strings. \<open>setItem\<close> is modelled without a
  quota, so it always succeeds.\<close>

type_synonym storage = "string \<rightharpoonup> string"

definition envelope :: "number \<Rightarrow> jsval \<Rightarrow> number \<Rightarrow> jsval" where
  "envelope version data timestamp =
     JObj [(''version'', JNum version), (''data'', data), (''timestamp'', JNum timestamp)]"

text \<open>\<open>saveToStorage\<close>; \<open>now\<close> is the clock reading. When \<open>JSON.stringify\<close> throws, the
  error is caught and logged and nothing is written. \<open>STORAGE_VERSION.toString()\<close> is
  the string \<open>1\<close>.\<close>

definition saveToStorage :: "platform \<Rightarrow> number \<Rightarrow> storage \<Rightarrow> string \<Rightarrow> jsval \<Rightarrow> storage" where
  "saveToStorage P now ls key data =
     (let storageData = envelope STORAGE_VERSION data now
      in case JSON_stringify P storageData of
           None \<Rightarrow> ls
         | Some text \<Rightarrow> (ls(key \<mapsto> text))(VERSION_KEY \<mapsto> ''1''))"

definition safeJsonParse :: "platform \<Rightarrow> string \<Rightarrow> jsval \<Rightarrow> jsval" where
  "safeJsonParse P json fallback = (case JSON_parse P json of None \<Rightarrow> fallback | Some v \<Rightarrow> v)"

text \<open>
  The body of the \<open>try\<close> block of \<open>loadFromStorage\<close>: the value it returns and the store
  it leaves, or the error it throws. \<open>now\<close> is the clock reading for the fallback
  envelope, \<open>now'\<close> the one for the write after a migration. \<open>!item\<close> holds for a missing
  key (\<open>getItem\<close> returns \<open>null\<close>) and for the empty string.
\<close>

definition loadFromStorage_try ::
  "platform \<Rightarrow> number \<Rightarrow> number \<Rightarrow> storage \<Rightarrow> string \<Rightarrow> jsval \<Rightarrow> error + (jsval \<times> storage)"
where
  "loadFromStorage_try P now now' ls key defaultValue =
     (case ls key of
        None \<Rightarrow> Inr (defaultValue, ls)
      | Some item \<Rightarrow>
          if item = [] then Inr (defaultValue, ls)
          else
            (let storageData = safeJsonParse P item (envelope 0 defaultValue now)
             in case get_prop storageData ''version'' of
                  Inl e \<Rightarrow> Inl e
                | Inr version \<Rightarrow>
                    if js_less P version STORAGE_VERSION then
                      (case get_prop storageData ''data'' of
                         Inl e \<Rightarrow> Inl e
                       | Inr data \<Rightarrow>
                           (case migrateData P data version of
                              Inl e \<Rightarrow> Inl e
                            | Inr migratedData \<Rightarrow>
                                Inr (migratedData, saveToStorage P now' ls key migratedData)))
                    else
                      (case get_prop storageData ''data'' of
                         Inl e \<Rightarrow> Inl e
                       | Inr data \<Rightarrow> Inr (data, ls))))"

text \<open>\<open>loadFromStorage\<close>: the \<open>catch\<close> logs the error and returns the default. Every
  throw of the body happens before its write, so the store is then as it was.\<close>

definition loadFromStorage ::
  "platform \<Rightarrow> number \<Rightarrow> number \<Rightarrow> storage \<Rightarrow> string \<Rightarrow> jsval \<Rightarrow> jsval \<times> storage"
where
  "loadFromStorage P now now' ls key defaultValue =
     (case loadFromStorage_try P now now' ls key defaultValue of
        Inl e \<Rightarrow> (defaultValue, ls)
      | Inr result \<Rightarrow> result)"


text \<open>
  The migration chain in the words of the specification, for integer versions: the
  transforms registered for \<open>v0, v0 + 1, ..., vN - 1\<close> are applied in ascending order, and
  a version without a registered transform passes the data through unchanged.
\<close>

fun apply_transforms :: "(jsval \<Rightarrow> error + jsval) option list \<Rightarrow> jsval \<Rightarrow> error + jsval" where
  "apply_transforms [] d = Inr d"
| "apply_transforms (None # ts) d = apply_transforms ts d"
| "apply_transforms (Some transform # ts) d =
     (case transform d of Inl e \<Rightarrow> Inl e | Inr d' \<Rightarrow> apply_transforms ts d')"

definition migration_chain ::
  "(jsval \<Rightarrow> (jsval \<Rightarrow> error + jsval) option) \<Rightarrow> int \<Rightarrow> int \<Rightarrow> jsval \<Rightarrow> error + jsval"
where
  "migration_chain table v0 vN d =
     apply_transforms (map (\<lambda>v. table (JNum (of_int v))) [v0..vN - 1]) d"

text \<open>A value is serializable on a platform when \<open>JSON.stringify\<close> gives it a text, which
  is never empty, and \<open>JSON.parse\<close> gives the value back from that text.\<close>

definition round_trips :: "platform \<Rightarrow> jsval \<Rightarrow> bool" where
  "round_trips P v =
     (case JSON_stringify P v of
        None \<Rightarrow> False
      | Some text \<Rightarrow> text \<noteq> [] \<and> JSON_parse P text = Some v)"

text \<open>The test \<open>data.cart && !data.cart.items\<close> of the version-0 transform, false where
  reading \<open>data.cart\<close> throws.\<close>

definition has_legacy_cart :: "jsval \<Rightarrow> bool" where
  "has_legacy_cart data =
     (case get_prop data ''cart'' of
        Inl e \<Rightarrow> False
      | Inr cart \<Rightarrow>
          truthy cart \<and>
          (case get_prop cart ''items'' of Inl e \<Rightarrow> False | Inr its \<Rightarrow> \<not> truthy its))"

section \<open>A reference platform for concrete evaluations\<close>

text \<open>
  The theorems about the storage utility hold for every platform. Closed evaluations need
  a concrete one: the JSON text format on the fragment of integers, strings whose only
  escapes are the quote and the backslash, arrays and objects. Outside this fragment
  (fractions, exponents, other escapes, control characters) the functions below answer
  \<open>None\<close> and stand for no real platform.
\<close>

definition digit_of :: "char \<Rightarrow> nat option" where
  "digit_of = map_of
     [(CHR ''0'', 0), (CHR ''1'', 1), (CHR ''2'', 2), (CHR ''3'', 3), (CHR ''4'', 4),
      (CHR ''5'', 5), (CHR ''6'', 6), (CHR ''7'', 7), (CHR ''8'', 8), (CHR ''9'', 9)]"

fun show_nat :: "nat \<Rightarrow> string" where
  "show_nat n = (if n < 10 then [''0123456789'' ! n] else show_nat (n div 10) @ [''0123456789'' ! (n mod 10)])"

definition show_int :: "int \<Rightarrow> string" where
  "show_int i = (if i < 0 then CHR ''-'' # show_nat (nat (- i)) else show_nat (nat i))"

definition quote :: "string \<Rightarrow> string" where
  "quote s = CHR 0x22 # concat (map (\<lambda>c. if c = CHR 0x22 \<or> c = CHR 0x5C then [CHR 0x5C, c] else [c]) s) @ [CHR 0x22]"

fun join :: "string \<Rightarrow> string list \<Rightarrow> string" where
  "join sep [] = []"
| "join sep [x] = x"
| "join sep (x # y # ys) = x @ sep @ join sep (y # ys)"

fun sequence :: "'a option list \<Rightarrow> 'a list option" where
  "sequence [] = Some []"
| "sequence (None # xs) = None"
| "sequence (Some x # xs) = map_option (Cons x) (sequence xs)"

text \<open>The JSON text of a value. Inside an array \<open>undefined\<close> is written as \<open>null\<close>; a property
  whose value is \<open>undefined\<close> is left out of its object.\<close>

fun emit :: "jsval \<Rightarrow> string option" where
  "emit JUndefined = Some ''null''"
| "emit JNull = Some ''null''"
| "emit (JBool b) = Some (if b then ''true'' else ''false'')"
| "emit (JNum n) = (if n = of_int \<lfloor>n\<rfloor> then Some (show_int \<lfloor>n\<rfloor>) else None)"
| "emit (JStr s) = Some (quote s)"
| "emit (JArr xs) =
     map_option (\<lambda>parts. ''['' @ join '','' parts @ '']'') (sequence (map emit xs))"
| "emit (JObj kvs) =
     map_option (\<lambda>parts. ''{'' @ join '','' parts @ ''}'')
       (sequence (map (\<lambda>(k, v). map_option (\<lambda>text. quote k @ '':'' @ text) (emit v))
                    (filter (\<lambda>(k, v). v \<noteq> JUndefined) kvs)))"


definition is_ws :: "char \<Rightarrow> bool" where
  "is_ws c \<longleftrightarrow> c = CHR '' '' \<or> c = CHR 0x0A \<or> c = CHR 0x0D \<or> c = CHR 0x09"

definition skip_ws :: "string \<Rightarrow> string" where
  "skip_ws s = dropWhile is_ws s"

fun parse_digits :: "string \<Rightarrow> nat \<Rightarrow> nat \<times> string" where
  "parse_digits [] acc = (acc, [])"
| "parse_digits (c # cs) acc =
     (case digit_of c of None \<Rightarrow> (acc, c # cs) | Some d \<Rightarrow> parse_digits cs (10 * acc + d))"

text \<open>An integer literal: an optional minus sign and digits, with no leading zero.\<close>

definition parse_number :: "string \<Rightarrow> (jsval \<times> string) option" where
  "parse_number s =
     (let negative = (s \<noteq> [] \<and> hd s = CHR ''-'');
          r = (if negative then tl s else s)
      in case r of
           [] \<Rightarrow> None
         | c # cs \<Rightarrow>
             (case digit_of c of
                None \<Rightarrow> None
              | Some d \<Rightarrow>
                  if d = 0 \<and> cs \<noteq> [] \<and> digit_of (hd cs) \<noteq> None then None
                  else (let (n, rest) = parse_digits r 0
                        in if rest \<noteq> [] \<and> hd rest \<in> set ''.eE'' then None
                           else Some (JNum (if negative then - of_nat n else of_nat n), rest))))"

text \<open>The rest of a string literal, after its opening quote.\<close>

fun parse_string_body :: "string \<Rightarrow> (string \<times> string) option" where
  "parse_string_body [] = None"
| "parse_string_body (c # cs) =
     (if c = CHR 0x22 then Some ([], cs)
      else if c = CHR 0x5C then
        (case cs of
           [] \<Rightarrow> None
         | e # cs' \<Rightarrow>
             if e = CHR 0x22 \<or> e = CHR 0x5C
             then map_option (\<lambda>(str, rest). (e # str, rest)) (parse_string_body cs')
             else None)
      else map_option (\<lambda>(str, rest). (c # str, rest)) (parse_string_body cs))"

text \<open>A recursive-descent parser; the first argument bounds the number of nested calls.
  A key that occurs twice in an object keeps its first position and its last value.\<close>

fun parse_value :: "nat \<Rightarrow> string \<Rightarrow> (jsval \<times> string) option"
  and parse_elements :: "nat \<Rightarrow> string \<Rightarrow> (jsval list \<times> string) option"
  and parse_members :: "nat \<Rightarrow> string \<Rightarrow> ((string \<times> jsval) list \<times> string) option"
where
  "parse_value 0 s = None"
| "parse_value (Suc fuel) s =
     (case skip_ws s of
        [] \<Rightarrow> None
      | c # cs \<Rightarrow>
          if c = CHR ''n'' then (if take 3 cs = ''ull'' then Some (JNull, drop 3 cs) else None)
          else if c = CHR ''t'' then (if take 3 cs = ''rue'' then Some (JBool True, drop 3 cs) else None)
          else if c = CHR ''f'' then (if take 4 cs = ''alse'' then Some (JBool False, drop 4 cs) else None)
          else if c = CHR 0x22 then map_option (\<lambda>(str, rest). (JStr str, rest)) (parse_string_body cs)
          else if c = CHR ''['' then
            (if skip_ws cs \<noteq> [] \<and> hd (skip_ws cs) = CHR '']'' then Some (JArr [], tl (skip_ws cs))
             else map_option (\<lambda>(vs, rest). (JArr vs, rest)) (parse_elements fuel cs))
          else if c = CHR ''{'' then
            (if skip_ws cs \<noteq> [] \<and> hd (skip_ws cs) = CHR ''}'' then Some (JObj [], tl (skip_ws cs))
             else map_option (\<lambda>(kvs, rest). (JObj (foldl (\<lambda>acc (k, v). set_key acc k v) [] kvs), rest))
                    (parse_members fuel cs))
          else parse_number (c # cs))"
| "parse_elements 0 s = None"
| "parse_elements (Suc fuel) s =
     (case parse_value fuel s of
        None \<Rightarrow> None
      | Some (v, rest) \<Rightarrow>
          (case skip_ws rest of
             [] \<Rightarrow> None
           | c # cs \<Rightarrow>
               if c = CHR '','' then map_option (\<lambda>(vs, r). (v # vs, r)) (parse_elements fuel cs)
               else if c = CHR '']'' then Some ([v], cs)
               else None))"
| "parse_members 0 s = None"
| "parse_members (Suc fuel) s =
     (case skip_ws s of
        [] \<Rightarrow> None
      | q # s1 \<Rightarrow>
          if q \<noteq> CHR 0x22 then None
          else
            (case parse_string_body s1 of
               None \<Rightarrow> None
             | Some (k, s2) \<Rightarrow>
                 (case skip_ws s2 of
                    [] \<Rightarrow> None
                  | colon # s3 \<Rightarrow>
                      if colon \<noteq> CHR '':'' then None
                      else
                        (case parse_value fuel s3 of
                           None \<Rightarrow> None
                         | Some (v, rest) \<Rightarrow>
                             (case skip_ws rest of
                                [] \<Rightarrow> None
                              | c # cs \<Rightarrow>
                                  if c = CHR '','' then
                                    map_option (\<lambda>(kvs, r). ((k, v) # kvs, r)) (parse_members fuel cs)
                                  else if c = CHR ''}'' then Some ([(k, v)], cs)
                                  else None)))))"

definition ref_parse :: "string \<Rightarrow> jsval option" where
  "ref_parse s =
     (case parse_value (2 * length s + 2) s of
        None \<Rightarrow> None
      | Some (v, rest) \<Rightarrow> if skip_ws rest = [] then Some v else None)"

text \<open>\<open>ToString\<close> on the fragment, as \<open>Array.prototype.toString\<close> applies it: the elements
  joined by commas, \<open>undefined\<close> and \<open>null\<close> as the empty string.\<close>

fun ref_ToString :: "jsval \<Rightarrow> string" where
  "ref_ToString JUndefined = ''undefined''"
| "ref_ToString JNull = ''null''"
| "ref_ToString (JBool b) = (if b then ''true'' else ''false'')"
| "ref_ToString (JNum n) = show_int \<lfloor>n\<rfloor>"
| "ref_ToString (JStr s) = s"
| "ref_ToString (JArr xs) =
     join '','' (map (\<lambda>x. if x = JUndefined \<or> x = JNull then [] else ref_ToString x) xs)"
| "ref_ToString (JObj kvs) = ''[object Object]''"

text \<open>\<open>StringToNumber\<close> on the fragment: surrounding white space is dropped, the empty
  string is \<open>0\<close>, and a signed run of decimal digits is its value.\<close>

definition ref_StringToNumber :: "string \<Rightarrow> number option" where
  "ref_StringToNumber s =
     (let t = rev (skip_ws (rev (skip_ws s)));
          negative = (t \<noteq> [] \<and> hd t = CHR ''-'');
          r = (if t \<noteq> [] \<and> (hd t = CHR ''-'' \<or> hd t = CHR ''+'') then tl t else t)
      in if t = [] then Some 0
         else if r \<noteq> [] \<and> snd (parse_digits r 0) = []
         then Some (if negative then - of_nat (fst (parse_digits r 0)) else of_nat (fst (parse_digits r 0)))
         else None)"

definition reference_platform :: platform where
  "reference_platform =
     \<lparr>JSON_stringify = emit, JSON_parse = ref_parse,
      StringToNumber = ref_StringToNumber, ArrayToString = (\<lambda>xs. ref_ToString (JArr xs))\<rparr>"

section \<open>Field validation (hooks/useForm.ts)\<close>

record 'v ValidationRule =
  validate :: "'v \<Rightarrow> bool"
  message :: string

record 'v FieldConfig =
  initialValue :: 'v
  rules :: "'v ValidationRule list option"

text \<open>The loop \<open>for (const rule of fieldConfig.rules)\<close> of \<open>validateField\<close>.\<close>

fun validate_rules :: "'v ValidationRule list \<Rightarrow> 'v \<Rightarrow> string option" where
  "validate_rules [] v = None"
| "validate_rules (rule # rest) v =
     (if \<not> validate rule v then Some (message rule) else validate_rules rest v)"

text \<open>\<open>validateField\<close>. The configuration has an entry for every field name
  (\<open>{ [K in keyof T]: FieldConfig<T[K]> }\<close>); \<open>rules\<close> is optional, and \<open>None\<close> is the
  result \<open>null\<close>.\<close>

definition validateField :: "('k \<Rightarrow> 'v FieldConfig) \<Rightarrow> 'k \<Rightarrow> 'v \<Rightarrow> string option" where
  "validateField config_fields fieldName v =
     (let fieldConfig = config_fields fieldName
      in case rules fieldConfig of
           None \<Rightarrow> None
         | Some rs \<Rightarrow> validate_rules rs v)"

text \<open>Two of the rules of \<open>validationRules\<close>, called with an explicit message as the
  contact page does. A string's length is counted in characters of the model.\<close>

definition minLength :: "nat \<Rightarrow> string \<Rightarrow> string ValidationRule" where
  "minLength lo msg = \<lparr>validate = (\<lambda>v. length v \<ge> lo), message = msg\<rparr>"

definition maxLength :: "nat \<Rightarrow> string \<Rightarrow> string ValidationRule" where
  "maxLength hi msg = \<lparr>validate = (\<lambda>v. length v \<le> hi), message = msg\<rparr>"

section \<open>Sample data\<close>

definition sample_product :: "string \<Rightarrow> number \<Rightarrow> Product" where
  "sample_product i p =
     \<lparr>pid = i, name = ''Kashmiri Saffron'', category = saffron, description = ''Pure saffron'',
      price = p, originalPrice = None, image_url = ''/saffron.jpg'', featured = False,
      inStock = True, weight = ''1g'', benefits = [], tags = []\<rparr>"


text \<open>The scenario of the specification: two products are added, then the quantity of the
  first is set to \<open>0\<close>.\<close>

definition scenario :: "event list" where
  "scenario =
     [(1, ADD_ITEM (sample_product ''p1'' 100) 2),
      (2, ADD_ITEM (sample_product ''p2'' 50) 1),
      (3, UPDATE_QUANTITY ''p1'' 0)]"

text \<open>A cart whose stored totals disagree with its lines, and one that also has a line of
  quantity \<open>0\<close>; \<open>LOAD_CART\<close> installs either as it is.\<close>

definition drifted_cart :: Cart where
  "drifted_cart = \<lparr>items = [], totalItems = 5, totalPrice = 0\<rparr>"

definition stale_cart :: Cart where
  "stale_cart =
     \<lparr>items = [\<lparr>product = sample_product ''p2'' 50, quantity = 0, addedAt = 1\<rparr>],
      totalItems = 5, totalPrice = 0\<rparr>"

text \<open>A stored version-0 envelope whose data holds the cart as an array.\<close>

definition legacy_text :: string where
  \<open>legacy_text = ''{"version":0,"data":{"cart":[{"id":"p1","qty":2}],"user":"a"},"timestamp":5}''\<close>

definition legacy_data :: jsval where
  "legacy_data =
     JObj [(''cart'', JArr [JObj [(''id'', JStr ''p1''), (''qty'', JNum 2)]]), (''user'', JStr ''a'')]"

definition migrated_data :: jsval where
  "migrated_data =
     JObj [(''cart'', JObj [(''items'', JArr [JObj [(''id'', JStr ''p1''), (''qty'', JNum 2)]]),
                           (''totalItems'', JNum 0), (''totalPrice'', JNum 0)]),
           (''user'', JStr ''a'')]"

text \<open>The empty cart as the JSON value that is stored for it, and a field configuration
  with two rules.\<close>

definition empty_cart_json :: jsval where
  "empty_cart_json = JObj [(''items'', JArr []), (''totalItems'', JNum 0), (''totalPrice'', JNum 0)]"

definition name_rules :: "string \<Rightarrow> string FieldConfig" where
  "name_rules fieldName =
     \<lparr>initialValue = [],
      rules = Some [minLength 2 ''Name must be at least 2 characters'',
                    maxLength 5 ''Name must be at most 5 characters'']\<rparr>"

section \<open>The totals are recomputed by every transition but two\<close>

lemma foldl_add_sum_list:
  fixes f :: "'a \<Rightarrow> rat"
  shows "foldl (\<lambda>s x. s + f x) a xs = a + sum_list (map f xs)"
  by (induction xs arbitrary: a) (simp_all add: add.assoc)

lemma items_calculateCartTotals [simp]: "items (calculateCartTotals c) = items c"
  by (simp add: calculateCartTotals_def)

lemma totals_ok_calculateCartTotals [simp]: "totals_ok (calculateCartTotals c)"
  by (simp add: calculateCartTotals_def totals_ok_def foldl_add_sum_list mult.commute)

lemma calculateCartTotals_fixed: "totals_ok c \<Longrightarrow> calculateCartTotals c = c"
  by (simp add: calculateCartTotals_def totals_ok_def foldl_add_sum_list mult.commute)

lemma totals_ok_initialCart [simp]: "totals_ok initialCart"
  by (simp add: totals_ok_def initialCart_def)

lemma reducer_totals_ok:
  assumes "totals_ok s" and "\<not> is_LOAD_CART a"
  shows "totals_ok (cartReducer now s a)"
  using assms by (cases a) (simp_all add: Let_def)

lemma run_totals_ok:
  "totals_ok s \<Longrightarrow> \<forall>ev\<in>set evs. \<not> is_LOAD_CART (snd ev) \<Longrightarrow> totals_ok (run s evs)"
proof (induction evs arbitrary: s)
  case Nil
  then show ?case by (simp add: run_def)
next
  case (Cons ev evs)
  obtain now a where ev: "ev = (now, a)" by (cases ev)
  with Cons.prems have "totals_ok (cartReducer now s a)"
    by (simp add: reducer_totals_ok)
  with Cons.IH[of "cartReducer now s a"] Cons.prems ev show ?case
    by (simp add: run_def)
qed





section \<open>Adding and rolling back lines\<close>

lemma findIndex_ge: "- 1 \<le> findIndex p xs"
  by (induction xs) (auto simp: Let_def)

lemma findIndex_none: "findIndex p xs = - 1 \<longleftrightarrow> (\<forall>x\<in>set xs. \<not> p x)"
proof (induction xs)
  case Nil
  show ?case by simp
next
  case (Cons x xs)
  have "- 1 \<le> findIndex p xs" by (rule findIndex_ge)
  with Cons show ?case by (auto simp: Let_def)
qed

lemma findIndex_first:
  "\<forall>x\<in>set pre. \<not> p x \<Longrightarrow> p it \<Longrightarrow> findIndex p (pre @ it # post) = int (length pre)"
  by (induction pre) (auto simp: Let_def)

lemma map_enumerate_at:
  "map (\<lambda>(i, x). if int i = int (n + length pre) then g x else x) (enumerate n (pre @ it # post))
     = pre @ g it # post"
proof (induction pre arbitrary: n)
  case Nil
  have "n < m \<Longrightarrow> map (\<lambda>(i, x). if int i = int n then g x else x) (enumerate m post) = post" for m
    by (induction post arbitrary: m) auto
  then show ?case by simp
next
  case (Cons a pre)
  from Cons[of "Suc n"] show ?case by simp
qed

lemma map_index_at:
  "map_index (\<lambda>item index. if index = int (length pre) then g item else item) (pre @ it # post)
     = pre @ g it # post"
  using map_enumerate_at[of 0 pre g it post] by (simp add: map_index_def)

lemma filter_enumerate_at:
  "map snd (filter (\<lambda>(i, x). int i \<noteq> int (n + length pre)) (enumerate n (pre @ it # post)))
     = pre @ post"
proof (induction pre arbitrary: n)
  case Nil
  have "n < m \<Longrightarrow> map snd (filter (\<lambda>(i, x). int i \<noteq> int n) (enumerate m post)) = post" for m
    by (induction post arbitrary: m) auto
  then show ?case by simp
next
  case (Cons a pre)
  from Cons[of "Suc n"] show ?case by simp
qed

lemma filter_index_at:
  "filter_index (\<lambda>_ index. index \<noteq> int (length pre)) (pre @ it # post) = pre @ post"
  using filter_enumerate_at[of 0 pre it post] by (simp add: filter_index_def)

lemma add_item_present:
  assumes "items c = pre @ it # post"
    and "\<forall>x\<in>set pre. pid (product x) \<noteq> pid P" and "pid (product it) = pid P"
  shows "cartReducer now c (ADD_ITEM P q)
    = calculateCartTotals (c\<lparr>items := pre @ it\<lparr>quantity := quantity it + q\<rparr> # post\<rparr>)"
  using assms findIndex_first[of pre "\<lambda>item. pid (product item) = pid P" it post]
  by (simp add: Let_def map_index_at)

lemma add_item_absent:
  assumes "\<forall>x\<in>set (items c). pid (product x) \<noteq> pid P"
  shows "cartReducer now c (ADD_ITEM P q)
    = calculateCartTotals (c\<lparr>items := items c @ [\<lparr>product = P, quantity = q, addedAt = now\<rparr>]\<rparr>)"
  using assms findIndex_none[of "\<lambda>item. pid (product item) = pid P" "items c"]
  by (simp add: Let_def)

lemma rollback_present:
  assumes "items c = pre @ it # post"
    and "\<forall>x\<in>set pre. pid (product x) \<noteq> productId" and "pid (product it) = productId"
  shows "cartReducer now c (ROLLBACK_ADD productId) = calculateCartTotals (c\<lparr>items := pre @ post\<rparr>)"
  using assms findIndex_first[of pre "\<lambda>item. pid (product item) = productId" it post]
  by (simp add: Let_def filter_index_at)

lemma rollback_absent:
  assumes "\<forall>x\<in>set (items c). pid (product x) \<noteq> productId"
  shows "cartReducer now c (ROLLBACK_ADD productId) = c"
  using assms findIndex_none[of "\<lambda>item. pid (product item) = productId" "items c"]
  by (simp add: Let_def)

lemma first_match_split:
  assumes "\<exists>x\<in>set xs. p x"
  shows "\<exists>pre it post. xs = pre @ it # post \<and> (\<forall>x\<in>set pre. \<not> p x) \<and> p it"
  using assms split_list_first_prop[of xs p] by blast

text \<open>
  C2. \<open>ADD_ITEM\<close> of a product \<open>P\<close>: when some line of the cart has the product id of
  \<open>P\<close>, the first such line has its quantity raised by the given amount, stays where it
  is, and every other line is unchanged; otherwise a new line for \<open>P\<close>, stamped with the
  clock reading, is appended at the end. In particular, adding \<open>A\<close>, then \<open>B\<close>, then a
  product with the id of \<open>A\<close> to the empty cart leaves exactly the line of \<open>A\<close> with
  the sum of both quantities, first, and the line of \<open>B\<close>. The precondition
  \<open>qty \<ge> 1\<close> of the action is not needed for any of this.
\<close>

theorem C2_add_item:
  "((\<exists>item\<in>set (items cart). pid (product item) = pid P) \<longrightarrow>
      (\<exists>pre it post. items cart = pre @ it # post
         \<and> (\<forall>item\<in>set pre. pid (product item) \<noteq> pid P) \<and> pid (product it) = pid P
         \<and> items (cartReducer now cart (ADD_ITEM P qty))
             = pre @ it\<lparr>quantity := quantity it + qty\<rparr> # post))
   \<and> ((\<forall>item\<in>set (items cart). pid (product item) \<noteq> pid P) \<longrightarrow>
        items (cartReducer now cart (ADD_ITEM P qty))
          = items cart @ [\<lparr>product = P, quantity = qty, addedAt = now\<rparr>])
   \<and> (pid A \<noteq> pid B \<and> pid A' = pid A \<longrightarrow>
        items (cartReducer t3 (cartReducer t2 (cartReducer t1 initialCart
                 (ADD_ITEM A q1)) (ADD_ITEM B q2)) (ADD_ITEM A' q3))
          = [\<lparr>product = A, quantity = q1 + q3, addedAt = t1\<rparr>,
             \<lparr>product = B, quantity = q2, addedAt = t2\<rparr>])"
proof (intro conjI impI)
  assume "\<exists>item\<in>set (items cart). pid (product item) = pid P"
  then obtain pre it post where split: "items cart = pre @ it # post"
      "\<forall>item\<in>set pre. pid (product item) \<noteq> pid P" "pid (product it) = pid P"
    using first_match_split[of "items cart" "\<lambda>item. pid (product item) = pid P"] by blast
  then have "items (cartReducer now cart (ADD_ITEM P qty))
      = pre @ it\<lparr>quantity := quantity it + qty\<rparr> # post"
    by (simp only: add_item_present[OF split] items_calculateCartTotals) simp
  with split show "\<exists>pre it post. items cart = pre @ it # post
         \<and> (\<forall>item\<in>set pre. pid (product item) \<noteq> pid P) \<and> pid (product it) = pid P
         \<and> items (cartReducer now cart (ADD_ITEM P qty))
             = pre @ it\<lparr>quantity := quantity it + qty\<rparr> # post"
    by blast
next
  assume "\<forall>item\<in>set (items cart). pid (product item) \<noteq> pid P"
  then show "items (cartReducer now cart (ADD_ITEM P qty))
          = items cart @ [\<lparr>product = P, quantity = qty, addedAt = now\<rparr>]"
    by (simp only: add_item_absent items_calculateCartTotals) simp
next
  assume ids: "pid A \<noteq> pid B \<and> pid A' = pid A"
  let ?lineA = "\<lparr>product = A, quantity = q1, addedAt = t1\<rparr>"
  let ?lineB = "\<lparr>product = B, quantity = q2, addedAt = t2\<rparr>"
  have one: "items (cartReducer t1 initialCart (ADD_ITEM A q1)) = [?lineA]"
    by (simp add: initialCart_def Let_def)
  have two: "items (cartReducer t2 (cartReducer t1 initialCart (ADD_ITEM A q1)) (ADD_ITEM B q2))
      = [] @ ?lineA # [?lineB]"
    using ids one
      add_item_absent[of "cartReducer t1 initialCart (ADD_ITEM A q1)" B t2 q2]
    by simp
  have "items (cartReducer t3 (cartReducer t2 (cartReducer t1 initialCart
                 (ADD_ITEM A q1)) (ADD_ITEM B q2)) (ADD_ITEM A' q3))
      = [] @ ?lineA\<lparr>quantity := quantity ?lineA + q3\<rparr> # [?lineB]"
    using ids by (subst add_item_present[OF two]) simp_all
  then show "items (cartReducer t3 (cartReducer t2 (cartReducer t1 initialCart
                 (ADD_ITEM A q1)) (ADD_ITEM B q2)) (ADD_ITEM A' q3))
          = [\<lparr>product = A, quantity = q1 + q3, addedAt = t1\<rparr>,
             \<lparr>product = B, quantity = q2, addedAt = t2\<rparr>]"
    by simp
qed



theorem C2_add_item_witness:
  "(\<exists>item\<in>set (items (run initialCart (take 2 scenario))). pid (product item) = pid (sample_product ''p1'' 100))
   \<and> items (cartReducer 4 (run initialCart (take 2 scenario)) (ADD_ITEM (sample_product ''p1'' 100) 3))
       = [\<lparr>product = sample_product ''p1'' 100, quantity = 5, addedAt = 1\<rparr>,
          \<lparr>product = sample_product ''p2'' 50, quantity = 1, addedAt = 2\<rparr>]
   \<and> items (cartReducer 4 (run initialCart (take 2 scenario)) (ADD_ITEM (sample_product ''p3'' 10) 3))
       = [\<lparr>product = sample_product ''p1'' 100, quantity = 2, addedAt = 1\<rparr>,
          \<lparr>product = sample_product ''p2'' 50, quantity = 1, addedAt = 2\<rparr>,
          \<lparr>product = sample_product ''p3'' 10, quantity = 3, addedAt = 4\<rparr>]
   \<and> pid (sample_product ''p1'' 100) \<noteq> pid (sample_product ''p2'' 50)
   \<and> items (cartReducer 3 (cartReducer 2 (cartReducer 1 initialCart
          (ADD_ITEM (sample_product ''p1'' 100) 2)) (ADD_ITEM (sample_product ''p2'' 50) 1))
          (ADD_ITEM (sample_product ''p1'' 100) 4))
       = [\<lparr>product = sample_product ''p1'' 100, quantity = 6, addedAt = 1\<rparr>,
          \<lparr>product = sample_product ''p2'' 50, quantity = 1, addedAt = 2\<rparr>]"
proof -
  have cart: "run initialCart (take 2 scenario)
      = \<lparr>items = [\<lparr>product = sample_product ''p1'' 100, quantity = 2, addedAt = 1\<rparr>,
                  \<lparr>product = sample_product ''p2'' 50, quantity = 1, addedAt = 2\<rparr>],
         totalItems = 3, totalPrice = 250\<rparr>"
    by (simp add: scenario_def run_def initialCart_def sample_product_def Let_def map_index_def
        calculateCartTotals_def)
  have ids: "pid (sample_product ''p1'' 100) \<noteq> pid (sample_product ''p2'' 50)
      \<and> pid (sample_product ''p1'' 100) = pid (sample_product ''p1'' 100)"
    by (simp add: sample_product_def)
  show ?thesis
    using C2_add_item[of "run initialCart (take 2 scenario)" "sample_product ''p1'' 100" 4 3
        "sample_product ''p1'' 100" "sample_product ''p2'' 50" "sample_product ''p1'' 100" 3 2 1 2 1 4]
      C2_add_item[of "run initialCart (take 2 scenario)" "sample_product ''p3'' 10" 4 3
        "sample_product ''p1'' 100" "sample_product ''p2'' 50" "sample_product ''p1'' 100" 3 2 1 2 1 4]
      ids
    by (simp add: cart sample_product_def Let_def map_index_def)
qed

section \<open>Quantities, rollback and hydration\<close>

lemma remove_item_eq:
  "cartReducer now c (REMOVE_ITEM productId)
     = calculateCartTotals (c\<lparr>items := filter (\<lambda>item. pid (product item) \<noteq> productId) (items c)\<rparr>)"
  by (simp add: Let_def)

lemma update_quantity_positive:
  "0 < qty \<Longrightarrow> cartReducer now c (UPDATE_QUANTITY productId qty)
     = calculateCartTotals (c\<lparr>items := map (\<lambda>item.
          if pid (product item) = productId then item\<lparr>quantity := qty\<rparr> else item) (items c)\<rparr>)"
  by (simp add: Let_def)

lemma update_quantity_items_absent:
  assumes "\<forall>item\<in>set (items c). pid (product item) \<noteq> productId"
  shows "items (cartReducer now c (UPDATE_QUANTITY productId qty)) = items c"
proof (cases "qty \<le> 0")
  case True
  have "filter (\<lambda>item. pid (product item) \<noteq> productId) (items c) = items c"
    using assms by (simp add: filter_id_conv)
  with True show ?thesis by (simp add: Let_def)
next
  case False
  have "map (\<lambda>item. if pid (product item) = productId then item\<lparr>quantity := qty\<rparr> else item) (items c)
      = items c"
    using assms by (simp add: map_idI)
  with False show ?thesis by (simp add: Let_def)
qed

lemma cart_eqI:
  fixes c c' :: Cart
  assumes "items c' = items c" and "totals_ok c'" and "totals_ok c"
  shows "c' = c"
  using assms by (cases c, cases c') (simp add: totals_ok_def)

lemma optimistic_add_eq:
  "cartReducer now c (OPTIMISTIC_ADD P q) = cartReducer now c (ADD_ITEM P q)"
  by simp

lemma ball_set_map_iff: "(\<forall>y\<in>set (map f xs). P y) \<longleftrightarrow> (\<forall>x\<in>set xs. P (f x))"
  by simp

lemma scenario_cart:
  "run initialCart (take 2 scenario)
     = \<lparr>items = [\<lparr>product = sample_product ''p1'' 100, quantity = 2, addedAt = 1\<rparr>,
                 \<lparr>product = sample_product ''p2'' 50, quantity = 1, addedAt = 2\<rparr>],
        totalItems = 3, totalPrice = 250\<rparr>"
  by (simp add: scenario_def run_def initialCart_def sample_product_def Let_def map_index_def
      calculateCartTotals_def)

text \<open>
  C3, as the reducer has it. \<open>UPDATE_QUANTITY\<close> with a quantity \<open>\<le> 0\<close> gives exactly the
  cart that \<open>REMOVE_ITEM\<close> of the same product id gives. With a quantity \<open>\<ge> 1\<close> it
  sets the quantity of every line with that product id to the given value, not to a sum,
  and recomputes the totals. When no line has the product id the lines are unchanged, and
  the whole cart is unchanged if its totals satisfied the invariant before: the totals are
  recomputed in every case. When every line of the cart has a positive quantity, so has
  every line of the result: the action itself never stores a quantity \<open>\<le> 0\<close>, and it
  leaves the other lines as they are.
\<close>

theorem C3_update_quantity:
  "(qty \<le> 0 \<longrightarrow>
      cartReducer now cart (UPDATE_QUANTITY productId qty) = cartReducer now cart (REMOVE_ITEM productId))
   \<and> (1 \<le> qty \<longrightarrow>
        items (cartReducer now cart (UPDATE_QUANTITY productId qty))
          = map (\<lambda>item. if pid (product item) = productId then item\<lparr>quantity := qty\<rparr> else item)
              (items cart)
        \<and> totals_ok (cartReducer now cart (UPDATE_QUANTITY productId qty)))
   \<and> ((\<forall>item\<in>set (items cart). pid (product item) \<noteq> productId) \<longrightarrow>
        items (cartReducer now cart (UPDATE_QUANTITY productId qty)) = items cart
        \<and> (totals_ok cart \<longrightarrow> cartReducer now cart (UPDATE_QUANTITY productId qty) = cart))
   \<and> ((\<forall>item\<in>set (items cart). 0 < quantity item) \<longrightarrow>
        (\<forall>item\<in>set (items (cartReducer now cart (UPDATE_QUANTITY productId qty))). 0 < quantity item))"
proof (intro conjI impI)
  assume "qty \<le> 0"
  then show "cartReducer now cart (UPDATE_QUANTITY productId qty)
      = cartReducer now cart (REMOVE_ITEM productId)"
    by simp
next
  assume "1 \<le> qty"
  then have "0 < qty" by simp
  then show "items (cartReducer now cart (UPDATE_QUANTITY productId qty))
          = map (\<lambda>item. if pid (product item) = productId then item\<lparr>quantity := qty\<rparr> else item)
              (items cart)"
    by (simp add: update_quantity_positive)
  from \<open>0 < qty\<close> show "totals_ok (cartReducer now cart (UPDATE_QUANTITY productId qty))"
    by (simp add: update_quantity_positive)
next
  assume absent: "\<forall>item\<in>set (items cart). pid (product item) \<noteq> productId"
  then show same: "items (cartReducer now cart (UPDATE_QUANTITY productId qty)) = items cart"
    by (rule update_quantity_items_absent)
  assume "totals_ok cart"
  moreover have "totals_ok (cartReducer now cart (UPDATE_QUANTITY productId qty))"
    by (cases "qty \<le> 0") (simp_all add: Let_def)
  ultimately show "cartReducer now cart (UPDATE_QUANTITY productId qty) = cart"
    using same by (intro cart_eqI)
next
  assume pos: "\<forall>item\<in>set (items cart). 0 < quantity item"
  show "\<forall>item\<in>set (items (cartReducer now cart (UPDATE_QUANTITY productId qty))). 0 < quantity item"
  proof (cases "qty \<le> 0")
    case True
    then have "items (cartReducer now cart (UPDATE_QUANTITY productId qty))
        = filter (\<lambda>item. pid (product item) \<noteq> productId) (items cart)"
      by (simp add: Let_def)
    with pos show ?thesis by simp
  next
    case False
    then have "0 < qty" by simp
    then have "items (cartReducer now cart (UPDATE_QUANTITY productId qty))
        = map (\<lambda>item. if pid (product item) = productId then item\<lparr>quantity := qty\<rparr> else item)
            (items cart)"
      by (simp add: update_quantity_positive)
    moreover have "0 < quantity (if pid (product x) = productId then x\<lparr>quantity := qty\<rparr> else x)"
      if "x \<in> set (items cart)" for x
      using that pos \<open>0 < qty\<close> by simp
    ultimately show ?thesis by (simp del: set_map add: ball_set_map_iff)
  qed
qed

text \<open>
  The two side conditions are needed. On \<open>stale_cart\<close>, whose stored totals are not those
  of its lines and whose one line has quantity \<open>0\<close>, updating the quantity of a product
  that is not in the cart changes the cart (the totals are recomputed) and the result
  still has the line of quantity \<open>0\<close>.
\<close>

theorem C3_update_quantity_counterexample:
  "''p1'' \<notin> set (map (\<lambda>item. pid (product item)) (items stale_cart))
   \<and> cartReducer 2 stale_cart (UPDATE_QUANTITY ''p1'' 3) \<noteq> stale_cart
   \<and> quantity (items (cartReducer 2 stale_cart (UPDATE_QUANTITY ''p1'' 3)) ! 0) \<le> 0"
  by (simp add: stale_cart_def sample_product_def Let_def calculateCartTotals_def)

theorem C3_update_quantity_witness:
  "(- 5 :: rat) \<le> 0
   \<and> cartReducer 3 (run initialCart (take 2 scenario)) (UPDATE_QUANTITY ''p1'' (- 5))
       = cartReducer 3 (run initialCart (take 2 scenario)) (REMOVE_ITEM ''p1'')
   \<and> items (cartReducer 3 (run initialCart (take 2 scenario)) (UPDATE_QUANTITY ''p1'' (- 5)))
       = [\<lparr>product = sample_product ''p2'' 50, quantity = 1, addedAt = 2\<rparr>]
   \<and> (1 :: rat) \<le> 7
   \<and> items (cartReducer 3 (run initialCart (take 2 scenario)) (UPDATE_QUANTITY ''p1'' 7))
       = [\<lparr>product = sample_product ''p1'' 100, quantity = 7, addedAt = 1\<rparr>,
          \<lparr>product = sample_product ''p2'' 50, quantity = 1, addedAt = 2\<rparr>]
   \<and> totalItems (cartReducer 3 (run initialCart (take 2 scenario)) (UPDATE_QUANTITY ''p1'' 7)) = 8
   \<and> list_all (\<lambda>item. pid (product item) \<noteq> ''p9'') (items (run initialCart (take 2 scenario)))
   \<and> totals_ok (run initialCart (take 2 scenario))
   \<and> cartReducer 3 (run initialCart (take 2 scenario)) (UPDATE_QUANTITY ''p9'' 7)
       = run initialCart (take 2 scenario)"
proof (intro conjI)
  show le: "(- 5 :: rat) \<le> 0" by simp
  show "cartReducer 3 (run initialCart (take 2 scenario)) (UPDATE_QUANTITY ''p1'' (- 5))
       = cartReducer 3 (run initialCart (take 2 scenario)) (REMOVE_ITEM ''p1'')"
    using le by (rule C3_update_quantity[THEN conjunct1, rule_format])
  show absent: "list_all (\<lambda>item. pid (product item) \<noteq> ''p9'') (items (run initialCart (take 2 scenario)))"
    by (simp add: scenario_cart sample_product_def)
  show ok: "totals_ok (run initialCart (take 2 scenario))"
    by (simp add: scenario_cart sample_product_def totals_ok_def)
  from absent have "\<forall>item\<in>set (items (run initialCart (take 2 scenario))). pid (product item) \<noteq> ''p9''"
    by (simp only: list_all_iff)
  from C3_update_quantity[THEN conjunct2, THEN conjunct2, THEN conjunct1, THEN mp, OF this]
  show "cartReducer 3 (run initialCart (take 2 scenario)) (UPDATE_QUANTITY ''p9'' 7)
       = run initialCart (take 2 scenario)"
    using ok by blast
qed (simp_all add: scenario_cart sample_product_def Let_def calculateCartTotals_def)

text \<open>
  C4, as the reducer has it. \<open>ROLLBACK_ADD\<close> removes the first line with the given product
  id as a whole, whatever its quantity, keeps the other lines in order and recomputes the
  totals; when no line has the product id it returns the cart unchanged. After an
  \<open>OPTIMISTIC_ADD\<close> of a product \<open>P\<close> that the cart did not contain, the rollback of
  \<open>P\<close> restores the lines of the cart, also when a second \<open>OPTIMISTIC_ADD\<close> of \<open>P\<close> has
  raised the quantity of the line in between; it restores the whole cart when the totals
  of the cart satisfied the invariant before the add.
\<close>

theorem C4_rollback_add:
  "((\<exists>item\<in>set (items cart). pid (product item) = productId) \<longrightarrow>
      (\<exists>pre it post. items cart = pre @ it # post
         \<and> (\<forall>item\<in>set pre. pid (product item) \<noteq> productId) \<and> pid (product it) = productId
         \<and> items (cartReducer now cart (ROLLBACK_ADD productId)) = pre @ post
         \<and> totals_ok (cartReducer now cart (ROLLBACK_ADD productId))))
   \<and> ((\<forall>item\<in>set (items cart). pid (product item) \<noteq> productId) \<longrightarrow>
        cartReducer now cart (ROLLBACK_ADD productId) = cart)
   \<and> ((\<forall>item\<in>set (items cart). pid (product item) \<noteq> pid P) \<longrightarrow>
        items (cartReducer now' (cartReducer now cart (OPTIMISTIC_ADD P qty)) (ROLLBACK_ADD (pid P)))
          = items cart
        \<and> items (cartReducer now'' (cartReducer now' (cartReducer now cart (OPTIMISTIC_ADD P qty))
                   (OPTIMISTIC_ADD P qty')) (ROLLBACK_ADD (pid P)))
          = items cart
        \<and> (totals_ok cart \<longrightarrow>
             cartReducer now' (cartReducer now cart (OPTIMISTIC_ADD P qty)) (ROLLBACK_ADD (pid P))
               = cart))"
proof (intro conjI impI)
  assume "\<exists>item\<in>set (items cart). pid (product item) = productId"
  then obtain pre it post where split: "items cart = pre @ it # post"
      "\<forall>item\<in>set pre. pid (product item) \<noteq> productId" "pid (product it) = productId"
    using first_match_split[of "items cart" "\<lambda>item. pid (product item) = productId"] by blast
  have "items (cartReducer now cart (ROLLBACK_ADD productId)) = pre @ post"
    and "totals_ok (cartReducer now cart (ROLLBACK_ADD productId))"
    by (simp_all only: rollback_present[OF split] items_calculateCartTotals
        totals_ok_calculateCartTotals) simp
  with split show "\<exists>pre it post. items cart = pre @ it # post
         \<and> (\<forall>item\<in>set pre. pid (product item) \<noteq> productId) \<and> pid (product it) = productId
         \<and> items (cartReducer now cart (ROLLBACK_ADD productId)) = pre @ post
         \<and> totals_ok (cartReducer now cart (ROLLBACK_ADD productId))"
    by blast
next
  assume "\<forall>item\<in>set (items cart). pid (product item) \<noteq> productId"
  then show "cartReducer now cart (ROLLBACK_ADD productId) = cart"
    by (rule rollback_absent)
next
  assume absent: "\<forall>item\<in>set (items cart). pid (product item) \<noteq> pid P"
  let ?line = "\<lparr>product = P, quantity = qty, addedAt = now\<rparr>"
  let ?added = "cartReducer now cart (OPTIMISTIC_ADD P qty)"
  have added: "items ?added = items cart @ ?line # []"
    unfolding optimistic_add_eq add_item_absent[OF absent] by simp
  have line: "pid (product ?line) = pid P" by simp
  show restored: "items (cartReducer now' ?added (ROLLBACK_ADD (pid P))) = items cart"
    by (simp only: rollback_present[OF added absent line] items_calculateCartTotals) simp
  have twice: "items (cartReducer now' ?added (OPTIMISTIC_ADD P qty'))
      = items cart @ ?line\<lparr>quantity := quantity ?line + qty'\<rparr> # []"
    unfolding optimistic_add_eq[of now' ?added] add_item_present[OF added absent line] by simp
  have line': "pid (product (?line\<lparr>quantity := quantity ?line + qty'\<rparr>)) = pid P" by simp
  show "items (cartReducer now'' (cartReducer now' ?added (OPTIMISTIC_ADD P qty')) (ROLLBACK_ADD (pid P)))
      = items cart"
    by (simp only: rollback_present[OF twice absent line'] items_calculateCartTotals) simp
  assume "totals_ok cart"
  moreover have "totals_ok (cartReducer now' ?added (ROLLBACK_ADD (pid P)))"
    by (simp only: rollback_present[OF added absent line] totals_ok_calculateCartTotals)
  ultimately show "cartReducer now' ?added (ROLLBACK_ADD (pid P)) = cart"
    using restored by (intro cart_eqI)
qed

text \<open>
  Without the invariant on the starting cart the round trip does not restore it: the
  rollback recomputes the totals of \<open>drifted_cart\<close>, which stored others.
\<close>

theorem C4_rollback_add_counterexample:
  "''p1'' \<notin> set (map (\<lambda>item. pid (product item)) (items drifted_cart))
   \<and> cartReducer 2 (cartReducer 1 drifted_cart (OPTIMISTIC_ADD (sample_product ''p1'' 100) 2))
        (ROLLBACK_ADD ''p1'') \<noteq> drifted_cart"
  by (simp add: drifted_cart_def sample_product_def Let_def calculateCartTotals_def
      map_index_def filter_index_def)

theorem C4_rollback_add_witness:
  "list_all (\<lambda>item. pid (product item) \<noteq> pid (sample_product ''p3'' 10))
     (items (run initialCart (take 2 scenario)))
   \<and> totals_ok (run initialCart (take 2 scenario))
   \<and> cartReducer 4 (cartReducer 3 (run initialCart (take 2 scenario))
        (OPTIMISTIC_ADD (sample_product ''p3'' 10) 2)) (ROLLBACK_ADD (pid (sample_product ''p3'' 10)))
       = run initialCart (take 2 scenario)
   \<and> cartReducer 3 (run initialCart (take 2 scenario)) (ROLLBACK_ADD ''p1'')
       = \<lparr>items = [\<lparr>product = sample_product ''p2'' 50, quantity = 1, addedAt = 2\<rparr>],
          totalItems = 1, totalPrice = 50\<rparr>
   \<and> cartReducer 4 (cartReducer 3 (run initialCart (take 2 scenario))
        (OPTIMISTIC_ADD (sample_product ''p1'' 100) 2)) (ROLLBACK_ADD ''p1'')
       = \<lparr>items = [\<lparr>product = sample_product ''p2'' 50, quantity = 1, addedAt = 2\<rparr>],
          totalItems = 1, totalPrice = 50\<rparr>"
proof (intro conjI)
  show absent: "list_all (\<lambda>item. pid (product item) \<noteq> pid (sample_product ''p3'' 10))
     (items (run initialCart (take 2 scenario)))"
    by (simp add: scenario_cart sample_product_def)
  show ok: "totals_ok (run initialCart (take 2 scenario))"
    by (simp add: scenario_cart sample_product_def totals_ok_def)
  from absent have "\<forall>item\<in>set (items (run initialCart (take 2 scenario))).
      pid (product item) \<noteq> pid (sample_product ''p3'' 10)"
    by (simp only: list_all_iff)
  from C4_rollback_add[THEN conjunct2, THEN conjunct2, THEN mp, OF this]
  show "cartReducer 4 (cartReducer 3 (run initialCart (take 2 scenario))
        (OPTIMISTIC_ADD (sample_product ''p3'' 10) 2)) (ROLLBACK_ADD (pid (sample_product ''p3'' 10)))
       = run initialCart (take 2 scenario)"
    using ok by blast
qed (simp_all add: scenario_cart sample_product_def Let_def calculateCartTotals_def
      map_index_def filter_index_def)

text \<open>
  C5. \<open>OPTIMISTIC_ADD\<close> and \<open>ADD_ITEM\<close> of the same product and quantity, run at the
  same clock reading, give the same cart from every cart.
\<close>

theorem C5_optimistic_add_is_add_item:
  "cartReducer now cart (OPTIMISTIC_ADD P qty) = cartReducer now cart (ADD_ITEM P qty)"
  by simp

theorem C5_optimistic_add_is_add_item_witness:
  "cartReducer 3 (run initialCart (take 2 scenario)) (OPTIMISTIC_ADD (sample_product ''p1'' 100) 2)
     = cartReducer 3 (run initialCart (take 2 scenario)) (ADD_ITEM (sample_product ''p1'' 100) 2)
   \<and> totalItems (cartReducer 3 (run initialCart (take 2 scenario))
        (OPTIMISTIC_ADD (sample_product ''p1'' 100) 2)) = 5"
proof (intro conjI)
  show "cartReducer 3 (run initialCart (take 2 scenario)) (OPTIMISTIC_ADD (sample_product ''p1'' 100) 2)
     = cartReducer 3 (run initialCart (take 2 scenario)) (ADD_ITEM (sample_product ''p1'' 100) 2)"
    by (rule C5_optimistic_add_is_add_item)
qed (simp add: scenario_cart sample_product_def Let_def calculateCartTotals_def map_index_def)

text \<open>
  C10, as the reducer has it. \<open>LOAD_CART\<close> returns its payload as it is, with the stored
  totals; a payload whose totals violate the invariant gives a state that violates it.
  The next action restores the invariant when it is neither a \<open>LOAD_CART\<close> nor a
  \<open>ROLLBACK_ADD\<close> of a product id that no line has; such a rollback returns the state
  unchanged, with the violation.
\<close>

theorem C10_load_cart:
  "cartReducer now state (LOAD_CART c) = c
   \<and> totalItems (cartReducer now state (LOAD_CART c)) = totalItems c
   \<and> totalPrice (cartReducer now state (LOAD_CART c)) = totalPrice c
   \<and> (\<not> totals_ok c \<longrightarrow> \<not> totals_ok (cartReducer now state (LOAD_CART c)))
   \<and> (\<not> is_LOAD_CART a
        \<and> \<not> (\<exists>productId. a = ROLLBACK_ADD productId
                \<and> (\<forall>item\<in>set (items c). pid (product item) \<noteq> productId)) \<longrightarrow>
        totals_ok (cartReducer now' (cartReducer now state (LOAD_CART c)) a))
   \<and> ((\<forall>item\<in>set (items c). pid (product item) \<noteq> productId) \<longrightarrow>
        cartReducer now' (cartReducer now state (LOAD_CART c)) (ROLLBACK_ADD productId) = c)"
proof (intro conjI impI)
  assume a: "\<not> is_LOAD_CART a
        \<and> \<not> (\<exists>productId. a = ROLLBACK_ADD productId
                \<and> (\<forall>item\<in>set (items c). pid (product item) \<noteq> productId))"
  show "totals_ok (cartReducer now' (cartReducer now state (LOAD_CART c)) a)"
  proof (cases a)
    case (ROLLBACK_ADD productId)
    with a have "findIndex (\<lambda>item. pid (product item) = productId) (items c) \<noteq> - 1"
      by (simp add: findIndex_none)
    with ROLLBACK_ADD show ?thesis by (simp add: Let_def)
  qed (use a in \<open>simp_all add: Let_def\<close>)
next
  assume "\<forall>item\<in>set (items c). pid (product item) \<noteq> productId"
  then show "cartReducer now' (cartReducer now state (LOAD_CART c)) (ROLLBACK_ADD productId) = c"
    by (simp only: cartReducer.simps(7) rollback_absent)
qed simp_all

text \<open>
  A \<open>ROLLBACK_ADD\<close> is not a \<open>LOAD_CART\<close>, and after it the loaded cart still violates
  the invariant.
\<close>

theorem C10_load_cart_counterexample:
  "\<not> totals_ok (cartReducer 2 (cartReducer 1 initialCart (LOAD_CART drifted_cart)) (ROLLBACK_ADD ''p1''))"
  by (simp add: drifted_cart_def totals_ok_def Let_def)

theorem C10_load_cart_witness:
  "cartReducer 1 initialCart (LOAD_CART drifted_cart) = drifted_cart
   \<and> \<not> totals_ok drifted_cart
   \<and> \<not> totals_ok (cartReducer 1 initialCart (LOAD_CART drifted_cart))
   \<and> totals_ok (cartReducer 2 (cartReducer 1 initialCart (LOAD_CART drifted_cart)) (REMOVE_ITEM ''p1''))
   \<and> totalItems (cartReducer 2 (cartReducer 1 initialCart (LOAD_CART drifted_cart)) (REMOVE_ITEM ''p1'')) = 0"
proof (intro conjI)
  show "cartReducer 1 initialCart (LOAD_CART drifted_cart) = drifted_cart"
    by (rule C10_load_cart[THEN conjunct1])
  show bad: "\<not> totals_ok drifted_cart"
    by (simp add: drifted_cart_def totals_ok_def)
  then show "\<not> totals_ok (cartReducer 1 initialCart (LOAD_CART drifted_cart))"
    by (rule C10_load_cart[THEN conjunct2, THEN conjunct2, THEN conjunct2, THEN conjunct1, rule_format])
  have "\<not> is_LOAD_CART (REMOVE_ITEM ''p1'')
      \<and> \<not> (\<exists>productId. REMOVE_ITEM ''p1'' = ROLLBACK_ADD productId
              \<and> (\<forall>item\<in>set (items drifted_cart). pid (product item) \<noteq> productId))"
    by simp
  then show "totals_ok (cartReducer 2 (cartReducer 1 initialCart (LOAD_CART drifted_cart)) (REMOVE_ITEM ''p1''))"
    by (rule C10_load_cart[THEN conjunct2, THEN conjunct2, THEN conjunct2, THEN conjunct2,
          THEN conjunct1, rule_format])
qed (simp add: drifted_cart_def Let_def calculateCartTotals_def)

section \<open>Versioned persistence\<close>

lemma get_prop_envelope:
  "get_prop (envelope v d t) ''version'' = Inr (JNum v)"
  "get_prop (envelope v d t) ''data'' = Inr d"
  by (simp_all add: envelope_def)

lemma migrate_loop_done:
  "ToNumber P v = Some n \<Longrightarrow> \<not> n < current \<Longrightarrow> migrate_loop P table current d v = Inr d"
  by (subst migrate_loop.simps) simp

lemma migrate_loop_step:
  assumes "ToNumber P v = Some n" and "n < current"
  shows "migrate_loop P table current d v =
     (case (case table v of Some transform \<Rightarrow> transform d | None \<Rightarrow> Inr d) of
        Inl e \<Rightarrow> Inl e
      | Inr d' \<Rightarrow> migrate_loop P table current d' (JNum (n + 1)))"
  using assms by (subst migrate_loop.simps) simp

lemma migrate_loop_chain:
  "migrate_loop P table (of_int vN) d (JNum (of_int v0)) = migration_chain table v0 vN d"
proof (induction "nat (vN - v0)" arbitrary: v0 d)
  case 0
  then have "\<not> (of_int v0 :: rat) < of_int vN" and "[v0..vN - 1] = []"
    by simp_all
  then show ?case
    by (simp add: migrate_loop_done migration_chain_def)
next
  case (Suc k)
  then have less: "(of_int v0 :: rat) < of_int vN" and k: "k = nat (vN - (v0 + 1))"
    by simp_all
  from Suc.hyps(2) have up: "[v0..vN - 1] = v0 # [v0 + 1..vN - 1]"
    by (simp add: upto_rec1)
  have IH: "migrate_loop P table (of_int vN) d' (JNum (of_int v0 + 1))
      = migration_chain table (v0 + 1) vN d'" for d'
    using Suc.hyps(1)[OF k, of d'] by simp
  show ?case
  proof (cases "table (JNum (of_int v0))")
    case None
    with less IH show ?thesis
      by (simp add: migrate_loop_step[where n = "of_int v0"] migration_chain_def up)
  next
    case (Some transform)
    with less IH show ?thesis
      by (cases "transform d")
        (simp_all add: migrate_loop_step[where n = "of_int v0"] migration_chain_def up)
  qed
qed

lemma migrateData_chain:
  "migrateData P d (JNum (of_int v0)) = migration_chain (migrations P) v0 1 d"
  using migrate_loop_chain[of P "migrations P" 1 d v0]
  by (simp add: migrateData_def STORAGE_VERSION_def)

lemma migration_chain_0:
  "migration_chain (migrations P) 0 1 d = migration_0 d"
  by (cases "migration_0 d") (simp_all add: migration_chain_def migrations_def)

lemma migrateData_0: "migrateData P d (JNum 0) = migration_0 d"
  using migrateData_chain[of P d 0] by (simp add: migration_chain_0)

lemma migration_0_not_legacy:
  "\<not> has_legacy_cart d \<Longrightarrow> migration_0 d = Inr d \<or> migration_0 d = Inl TypeError"
  by (cases "get_prop d ''cart''")
    (auto simp: has_legacy_cart_def migration_0_def split: sum.splits error.splits
      intro: error.exhaust)

lemma map_of_set_key:
  "map_of (set_key kvs k v) k' = (if k' = k then Some v else map_of kvs k')"
  by (induction kvs) auto

lemma migration_0_legacy_array:
  assumes "map_of kvs ''cart'' = Some (JArr xs)"
  shows "migration_0 (JObj kvs) = Inr (JObj (set_key kvs ''cart''
     (JObj [(''items'', JArr xs), (''totalItems'', JNum 0), (''totalPrice'', JNum 0)])))"
  using assms by (simp add: migration_0_def)

lemma save_lookup:
  assumes "key \<noteq> VERSION_KEY"
  shows "saveToStorage P t ls key X key =
     (case JSON_stringify P (envelope STORAGE_VERSION X t) of None \<Rightarrow> ls key | Some text \<Rightarrow> Some text)"
  using assms by (simp add: saveToStorage_def Let_def split: option.splits)

lemma load_absent:
  "ls key = None \<or> ls key = Some [] \<Longrightarrow> loadFromStorage P now now' ls key d = (d, ls)"
  by (auto simp: loadFromStorage_def loadFromStorage_try_def)

lemma load_current:
  assumes "ls key = Some text" and "text \<noteq> []"
    and "JSON_parse P text = Some (envelope STORAGE_VERSION X t)"
  shows "loadFromStorage P now now' ls key d = (X, ls)"
  using assms
  by (simp add: loadFromStorage_def loadFromStorage_try_def safeJsonParse_def Let_def
      get_prop_envelope js_less_def STORAGE_VERSION_def)

lemma load_outdated_0:
  assumes "ls key = Some item" and "item \<noteq> []"
    and "safeJsonParse P item (envelope 0 d now) = stored"
    and "get_prop stored ''version'' = Inr (JNum 0)" and "get_prop stored ''data'' = Inr data"
  shows "loadFromStorage P now now' ls key d =
     (case migration_0 data of
        Inl e \<Rightarrow> (d, ls)
      | Inr migrated \<Rightarrow> (migrated, saveToStorage P now' ls key migrated))"
  using assms
  by (simp add: loadFromStorage_def loadFromStorage_try_def Let_def js_less_def
      STORAGE_VERSION_def[symmetric] migrateData_0 split: sum.splits)
    (simp add: STORAGE_VERSION_def)




text \<open>
  C7, as the utility has it. When nothing, or the empty string, is stored under the key,
  \<open>loadFromStorage\<close> returns the default and leaves the store as it is. When the stored
  string does not parse, the default is wrapped as a version-0 envelope and so passes
  through the version-0 transform: the result is the default itself unless the default is
  an object with a truthy \<open>cart\<close> property that has no truthy \<open>items\<close>, and it is the
  default if the transform throws. Whatever the body of the \<open>try\<close> block throws, the
  caller gets the default and an unchanged store: nothing is thrown outward.
\<close>

theorem C7_load_default:
  "(ls key = None \<or> ls key = Some [] \<longrightarrow> loadFromStorage P now now' ls key d = (d, ls))
   \<and> (ls key = Some item \<and> item \<noteq> [] \<and> JSON_parse P item = None \<longrightarrow>
        fst (loadFromStorage P now now' ls key d)
          = (case migration_0 d of Inl e \<Rightarrow> d | Inr migrated \<Rightarrow> migrated)
        \<and> (\<not> has_legacy_cart d \<longrightarrow> fst (loadFromStorage P now now' ls key d) = d))
   \<and> (loadFromStorage_try P now now' ls key d = Inl e \<longrightarrow>
        loadFromStorage P now now' ls key d = (d, ls))"
proof (intro conjI impI)
  assume "ls key = None \<or> ls key = Some []"
  then show "loadFromStorage P now now' ls key d = (d, ls)"
    by (rule load_absent)
next
  assume corrupt: "ls key = Some item \<and> item \<noteq> [] \<and> JSON_parse P item = None"
  then have "safeJsonParse P item (envelope 0 d now) = envelope 0 d now"
    by (simp add: safeJsonParse_def)
  with corrupt have load: "loadFromStorage P now now' ls key d =
     (case migration_0 d of
        Inl e \<Rightarrow> (d, ls)
      | Inr migrated \<Rightarrow> (migrated, saveToStorage P now' ls key migrated))"
    using load_outdated_0[where ls = ls and key = key and item = item and P = P and d = d
        and now = now and now' = now' and stored = "envelope 0 d now" and data = d]
    by (simp add: get_prop_envelope)
  then show result: "fst (loadFromStorage P now now' ls key d)
          = (case migration_0 d of Inl e \<Rightarrow> d | Inr migrated \<Rightarrow> migrated)"
    by (simp split: sum.splits)
  assume "\<not> has_legacy_cart d"
  then have "migration_0 d = Inr d \<or> migration_0 d = Inl TypeError"
    by (rule migration_0_not_legacy)
  with result show "fst (loadFromStorage P now now' ls key d) = d"
    by auto
next
  assume "loadFromStorage_try P now now' ls key d = Inl e"
  then show "loadFromStorage P now now' ls key d = (d, ls)"
    by (simp add: loadFromStorage_def)
qed

text \<open>
  A default of the legacy shape does not come back as it was supplied: the transform
  rewrites its \<open>cart\<close>.
\<close>

theorem C7_load_default_counterexample:
  "JSON_parse reference_platform ''{oops'' = None
   \<and> fst (loadFromStorage reference_platform 1 2 [''monnn_cart'' \<mapsto> ''{oops''] ''monnn_cart''
          (JObj [(''cart'', JArr [])]))
       = JObj [(''cart'', JObj [(''items'', JArr []), (''totalItems'', JNum 0), (''totalPrice'', JNum 0)])]"
  by code_simp

theorem C7_load_default_witness:
  "loadFromStorage reference_platform 1 2 Map.empty ''monnn_cart'' empty_cart_json
     = (empty_cart_json, Map.empty)
   \<and> JSON_parse reference_platform ''{oops'' = None
   \<and> \<not> has_legacy_cart empty_cart_json
   \<and> fst (loadFromStorage reference_platform 1 2 [''monnn_cart'' \<mapsto> ''{oops''] ''monnn_cart''
          empty_cart_json) = empty_cart_json"
proof -
  have absent: "(Map.empty :: storage) ''monnn_cart'' = None \<or> (Map.empty :: storage) ''monnn_cart'' = Some []"
    by simp
  have corrupt: "[''monnn_cart'' \<mapsto> ''{oops''] ''monnn_cart'' = Some ''{oops'' \<and> ''{oops'' \<noteq> []
      \<and> JSON_parse reference_platform ''{oops'' = None"
    by code_simp
  have plain: "\<not> has_legacy_cart empty_cart_json"
    by code_simp
  note inst = C7_load_default[where P = reference_platform and now = 1 and now' = 2
      and key = "''monnn_cart''" and d = empty_cart_json]
  from inst[where ls = Map.empty, THEN conjunct1, THEN mp, OF absent]
    inst[where ls = "[''monnn_cart'' \<mapsto> ''{oops'']" and item = "''{oops''",
      THEN conjunct2, THEN conjunct1, THEN mp, OF corrupt, THEN conjunct2, THEN mp, OF plain]
    corrupt plain
  show ?thesis by simp
qed




section \<open>Field validation\<close>

lemma validate_rules_accept:
  "\<forall>rule\<in>set rs. validate rule v \<Longrightarrow> validate_rules rs v = None"
  by (induction rs) simp_all

lemma validate_rules_first:
  "\<forall>rule\<in>set pre. validate rule v \<Longrightarrow> \<not> validate r v \<Longrightarrow>
     validate_rules (pre @ r # post) v = Some (message r)"
  by (induction pre) simp_all

lemma validate_rules_find:
  "validate_rules rs v = map_option message (find (\<lambda>rule. \<not> validate rule v) rs)"
  by (induction rs) simp_all

text \<open>
  C9. \<open>validateField\<close> returns the message of the first rule, in the order of the
  configuration, that rejects the value, and \<open>null\<close> (\<open>None\<close>) when every rule accepts it
  or the field has no rules; its result is at most one message.
\<close>

theorem C9_validate_field:
  "(rules (config_fields fieldName) = None \<longrightarrow> validateField config_fields fieldName v = None)
   \<and> (rules (config_fields fieldName) = Some rs \<longrightarrow>
        validateField config_fields fieldName v
          = map_option message (find (\<lambda>rule. \<not> validate rule v) rs)
        \<and> ((\<forall>rule\<in>set rs. validate rule v) \<longrightarrow> validateField config_fields fieldName v = None)
        \<and> (rs = pre @ r # post \<and> (\<forall>rule\<in>set pre. validate rule v) \<and> \<not> validate r v \<longrightarrow>
             validateField config_fields fieldName v = Some (message r)))"
proof (intro conjI impI)
  assume "rules (config_fields fieldName) = None"
  then show "validateField config_fields fieldName v = None"
    by (simp add: validateField_def)
next
  assume rs: "rules (config_fields fieldName) = Some rs"
  then have run: "validateField config_fields fieldName v = validate_rules rs v"
    by (simp add: validateField_def)
  then show "validateField config_fields fieldName v
          = map_option message (find (\<lambda>rule. \<not> validate rule v) rs)"
    by (simp only: validate_rules_find)
  show "validateField config_fields fieldName v = None" if "\<forall>rule\<in>set rs. validate rule v"
    using that run by (simp add: validate_rules_accept)
  show "validateField config_fields fieldName v = Some (message r)"
    if "rs = pre @ r # post \<and> (\<forall>rule\<in>set pre. validate rule v) \<and> \<not> validate r v"
    using that run by (simp add: validate_rules_first)
qed

theorem C9_validate_field_witness:
  "rules (name_rules ''name'')
     = Some ([] @ minLength 2 ''Name must be at least 2 characters''
               # [maxLength 5 ''Name must be at most 5 characters''])
   \<and> \<not> validate (minLength 2 ''Name must be at least 2 characters'') ''a''
   \<and> validateField name_rules ''name'' ''a'' = Some ''Name must be at least 2 characters''
   \<and> list_all (\<lambda>rule. validate rule ''abc'')
        [minLength 2 ''Name must be at least 2 characters'',
         maxLength 5 ''Name must be at most 5 characters'']
   \<and> validateField name_rules ''name'' ''abc'' = None
   \<and> validateField name_rules ''name'' ''abcdefg'' = Some ''Name must be at most 5 characters''"
proof -
  have rs: "rules (name_rules ''name'')
     = Some ([] @ minLength 2 ''Name must be at least 2 characters''
               # [maxLength 5 ''Name must be at most 5 characters''])"
    by (simp add: name_rules_def)
  have short: "[] @ minLength 2 ''Name must be at least 2 characters''
               # [maxLength 5 ''Name must be at most 5 characters'']
      = [] @ minLength 2 ''Name must be at least 2 characters''
               # [maxLength 5 ''Name must be at most 5 characters'']
      \<and> (\<forall>rule\<in>set []. validate rule ''a'')
      \<and> \<not> validate (minLength 2 ''Name must be at least 2 characters'') ''a''"
    by (simp add: minLength_def)
  have fine: "\<forall>rule\<in>set ([] @ minLength 2 ''Name must be at least 2 characters''
               # [maxLength 5 ''Name must be at most 5 characters'']). validate rule ''abc''"
    by (simp add: minLength_def maxLength_def)
  from C9_validate_field[where config_fields = name_rules and fieldName = "''name''" and v = "''a''",
      THEN conjunct2, THEN mp, OF rs, THEN conjunct2, THEN conjunct2, THEN mp, OF short]
    C9_validate_field[where config_fields = name_rules and fieldName = "''name''" and v = "''abc''",
      THEN conjunct2, THEN mp, OF rs, THEN conjunct2, THEN conjunct1, THEN mp, OF fine]
    rs short
  show ?thesis
    by (simp add: name_rules_def validateField_def minLength_def maxLength_def)
qed

end
